theory Spec2Isabelle
  imports Main "HOL-Library.Char_ord" "HOL-Library.List_Lexorder"
begin

section \<open>Errors (package errors, pgconn, lazyerrors)\<close>

text \<open>
  A Go error value is a chain: an error may wrap another one, and \<open>errors.Is\<close> and
  \<open>errors.As\<close> walk the chain through \<open>Unwrap\<close>.  The three sentinels are the
  package-level variables of \<open>pgdb\<close> that \<open>databases.go\<close> returns;
  \<open>PgError c\<close> is a \<open>*pgconn.PgError\<close> whose field \<open>Code\<close> is \<open>c\<close>;
  \<open>Other s\<close> is any other leaf error (a cancelled context, a network failure).
\<close>

datatype error =
    ErrInvalidDatabaseName
  | ErrAlreadyExist
  | ErrSchemaNotExist
  | PgError string
  | Other string
  | Wrapped error

text \<open>Modelled from the spec: \<open>lazyerrors.Error\<close> (internal/util/lazyerrors) is not
  among the sources; the spec says that an unclassified error "is wrapped", so the result
  is a new error whose \<open>Unwrap\<close> gives the cause.\<close>

definition lazyerrors_Error :: "error \<Rightarrow> error" where
  "lazyerrors_Error err = Wrapped err"

text \<open>\<open>errors.As(err, &pgErr)\<close> with \<open>pgErr\<close> of type \<open>*pgconn.PgError\<close>: the first
  PostgreSQL error of the chain; the result is its \<open>Code\<close>.\<close>

fun errors_As_PgError :: "error \<Rightarrow> string option" where
  "errors_As_PgError (PgError code) = Some code"
| "errors_As_PgError (Wrapped err) = errors_As_PgError err"
| "errors_As_PgError _ = None"

text \<open>\<open>errors.Is(err, target)\<close>.\<close>

fun errors_Is :: "error \<Rightarrow> error \<Rightarrow> bool" where
  "errors_Is (Wrapped err) target = (Wrapped err = target \<or> errors_Is err target)"
| "errors_Is err target = (err = target)"

text \<open>The type assertion \<open>err.(*pgconn.PgError)\<close>: it looks at the error itself only,
  never at what it wraps.\<close>

fun assert_PgError :: "error \<Rightarrow> string option" where
  "assert_PgError (PgError code) = Some code"
| "assert_PgError _ = None"

text \<open>The SQLSTATE constants of package \<open>pgerrcode\<close> that the file uses.\<close>

definition DuplicateSchema :: string where "DuplicateSchema = ''42P06''"
definition UniqueViolation :: string where "UniqueViolation = ''23505''"
definition DuplicateObject :: string where "DuplicateObject = ''42710''"
definition InvalidSchemaName :: string where "InvalidSchemaName = ''3F000''"

text \<open>The MongoDB error codes the spec names for these functions: 73, 48, 26 and 1.\<close>

datatype mongo_error = InvalidNamespace | NamespaceExists | NamespaceNotFound | InternalError

text \<open>Modelled from the spec: the handler that turns a backend error into a MongoDB
  error is not among the sources.  The spec's table: an invalid name is reported as
  \<open>InvalidNamespace\<close>, an existing schema as \<open>NamespaceExists\<close>, a missing schema as
  \<open>NamespaceNotFound\<close>, anything unclassified as \<open>InternalError\<close>.  The sentinels
  are recognised with \<open>errors.Is\<close>, as the comment of \<open>CreateDatabase\<close> asks.\<close>

definition reportedAs :: "error \<Rightarrow> mongo_error" where
  "reportedAs err =
     (if errors_Is err ErrInvalidDatabaseName then InvalidNamespace
      else if errors_Is err ErrAlreadyExist then NamespaceExists
      else if errors_Is err ErrSchemaNotExist then NamespaceNotFound
      else InternalError)"

section \<open>Strings (package strings, pgx.Identifier)\<close>

definition strings_HasPrefix :: "string \<Rightarrow> string \<Rightarrow> bool" where
  "strings_HasPrefix s pre = (length pre \<le> length s \<and> take (length pre) s = pre)"

text \<open>\<open>strings.ReplaceAll(s, old, new)\<close> for an \<open>old\<close> of one byte.\<close>

fun strings_ReplaceAll :: "string \<Rightarrow> char \<Rightarrow> string \<Rightarrow> string" where
  "strings_ReplaceAll [] old new = []"
| "strings_ReplaceAll (c # s) old new =
     (if c = old then new @ strings_ReplaceAll s old new
      else c # strings_ReplaceAll s old new)"

fun strings_Join :: "string list \<Rightarrow> string \<Rightarrow> string" where
  "strings_Join [] sep = []"
| "strings_Join [p] sep = p"
| "strings_Join (p # ps) sep = p @ sep @ strings_Join ps sep"

definition dquote :: char where "dquote = CHR 0x22"
definition nul :: char where "nul = CHR 0x00"

text \<open>
  \<open>pgx.Identifier{...}.Sanitize()\<close>: every part loses its NUL bytes, has its double
  quotes doubled and is put between double quotes; the parts are joined with a dot.
\<close>

definition Sanitize :: "string list \<Rightarrow> string" where
  "Sanitize ident =
     strings_Join
       (map (\<lambda>p. [dquote] @ strings_ReplaceAll (strings_ReplaceAll p nul []) dquote [dquote, dquote]
                  @ [dquote]) ident)
       ''.''"

section \<open>Name validation\<close>

text \<open>The two character classes of the spec's expression, \<open>[a-z_-]\<close> and
  \<open>[a-z0-9_-]\<close>.\<close>

definition firstChar :: "char \<Rightarrow> bool" where
  "firstChar c = (c \<in> set ''abcdefghijklmnopqrstuvwxyz_-'')"

definition restChar :: "char \<Rightarrow> bool" where
  "restChar c = (c \<in> set ''abcdefghijklmnopqrstuvwxyz0123456789_-'')"

text \<open>Modelled from the spec: \<open>validateDatabaseNameRe\<close> is declared in a file that is
  not among the sources.  The spec gives the expression \<open>[a-z_-][a-z0-9_-]{0,62}\<close>,
  which a name has to match as a whole: one character of the first class, then at most
  62 of the second.\<close>

fun validateDatabaseNameRe_MatchString :: "string \<Rightarrow> bool" where
  "validateDatabaseNameRe_MatchString [] = False"
| "validateDatabaseNameRe_MatchString (c # cs) =
     (firstChar c \<and> list_all restChar cs \<and> length cs \<le> 62)"

text \<open>Modelled from the spec: \<open>reservedPrefix\<close> is declared in a file that is not
  among the sources; the spec gives \<open>_ferretdb_\<close>.\<close>

definition reservedPrefix :: string where
  "reservedPrefix = ''_ferretdb_''"

section \<open>The querier (pgxtype.Querier) and the statements it receives\<close>

text \<open>
  \<open>rows\<close> is a \<open>pgx.Rows\<close> as \<open>Databases\<close> reads it: \<open>scans\<close> has one entry for
  every row \<open>Next\<close> delivers, the outcome of \<open>Scan\<close> on it (the name, or an error);
  \<open>rowsErr\<close> is what \<open>rows.Err()\<close> returns once \<open>Next\<close> has returned false.
\<close>

record rows =
  scans :: "(error + string) list"
  rowsErr :: "error option"

text \<open>
  The querier is an interface value.  Its behaviour is any pair of functions of the
  statement and of a backend state \<open>'b\<close>, of which nothing is assumed: what other
  connections do between two calls is part of it.
\<close>

record 'b querier =
  qExec :: "string \<Rightarrow> 'b \<Rightarrow> error option \<times> 'b"
  qQuery :: "string \<Rightarrow> 'b \<Rightarrow> (error + rows) \<times> 'b"

text \<open>What a call did, in order: the statements handed to the querier and the calls
  of \<open>createSettingsTable\<close>.\<close>

datatype event = Statement string | CreateSettingsTable string

record 'b world =
  issued :: "event list"
  backend :: 'b

definition Exec :: "'b querier \<Rightarrow> string \<Rightarrow> 'b world \<Rightarrow> error option \<times> 'b world" where
  "Exec querier sql w =
     (case qExec querier sql (backend w) of
        (err, b) \<Rightarrow> (err, \<lparr>issued = issued w @ [Statement sql], backend = b\<rparr>))"

definition Query :: "'b querier \<Rightarrow> string \<Rightarrow> 'b world \<Rightarrow> (error + rows) \<times> 'b world" where
  "Query querier sql w =
     (case qQuery querier sql (backend w) of
        (r, b) \<Rightarrow> (r, \<lparr>issued = issued w @ [Statement sql], backend = b\<rparr>))"

text \<open>
  \<open>createSettingsTable\<close> is defined in a file that is not among the sources, so its
  behaviour is a parameter: from the querier, the database name and the backend state
  it gives its error, the statements it issued and the new backend state.
\<close>

type_synonym 'b settings_table =
  "'b querier \<Rightarrow> string \<Rightarrow> 'b \<Rightarrow> error option \<times> string list \<times> 'b"

definition createSettingsTable ::
  "'b settings_table \<Rightarrow> 'b querier \<Rightarrow> string \<Rightarrow> 'b world \<Rightarrow> error option \<times> 'b world" where
  "createSettingsTable cst querier db w =
     (case cst querier db (backend w) of
        (err, sqls, b) \<Rightarrow>
          (err, \<lparr>issued = issued w @ CreateSettingsTable db # map Statement sqls,
                 backend = b\<rparr>))"

section \<open>databases.go\<close>

subsection \<open>Databases\<close>

text \<open>The loop over the rows, with \<open>res\<close> as accumulator: a failing \<open>Scan\<close> returns at
  once, a name that starts with \<open>pg_\<close> or is \<open>information_schema\<close> is skipped.\<close>

fun scanLoop :: "(error + string) list \<Rightarrow> string list \<Rightarrow> error + string list" where
  "scanLoop [] res = Inr res"
| "scanLoop (Inl err # rs) res = Inl (lazyerrors_Error err)"
| "scanLoop (Inr name # rs) res =
     (if strings_HasPrefix name ''pg_'' \<or> name = ''information_schema''
      then scanLoop rs res
      else scanLoop rs (res @ [name]))"

definition Databases :: "'b querier \<Rightarrow> 'b world \<Rightarrow> (error + string list) \<times> 'b world" where
  "Databases querier w =
     (case Query querier
             ''SELECT schema_name FROM information_schema.schemata ORDER BY schema_name'' w of
        (Inl err, w1) \<Rightarrow> (Inl (lazyerrors_Error err), w1)
      | (Inr rs, w1) \<Rightarrow>
          (case scanLoop (scans rs) [] of
             Inl e \<Rightarrow> (Inl e, w1)
           | Inr res \<Rightarrow>
               (case rowsErr rs of
                  Some err \<Rightarrow> (Inl (lazyerrors_Error err), w1)
                | None \<Rightarrow> (Inr res, w1))))"

subsection \<open>CreateDatabase\<close>

definition CreateDatabase ::
  "'b settings_table \<Rightarrow> 'b querier \<Rightarrow> string \<Rightarrow> 'b world \<Rightarrow> error option \<times> 'b world" where
  "CreateDatabase cst querier db w =
     (if \<not> validateDatabaseNameRe_MatchString db \<or> strings_HasPrefix db reservedPrefix
      then (Some ErrInvalidDatabaseName, w)
      else
        (case Exec querier (''CREATE SCHEMA '' @ Sanitize [db]) w of
           (err0, w1) \<Rightarrow>
             (case (if err0 = None then createSettingsTable cst querier db w1 else (err0, w1)) of
                (None, w2) \<Rightarrow> (None, w2)
              | (Some err, w2) \<Rightarrow>
                  (case errors_As_PgError err of
                     None \<Rightarrow> (Some (lazyerrors_Error err), w2)
                   | Some code \<Rightarrow>
                       if code = DuplicateSchema then (Some ErrAlreadyExist, w2)
                       else if code = UniqueViolation \<or> code = DuplicateObject
                       then (Some ErrAlreadyExist, w2)
                       else (Some (lazyerrors_Error err), w2)))))"

subsection \<open>CreateDatabaseIfNotExists\<close>

definition CreateDatabaseIfNotExists ::
  "'b settings_table \<Rightarrow> 'b querier \<Rightarrow> string \<Rightarrow> 'b world \<Rightarrow> error option \<times> 'b world" where
  "CreateDatabaseIfNotExists cst querier db w =
     (if \<not> validateDatabaseNameRe_MatchString db \<or> strings_HasPrefix db reservedPrefix
      then (Some ErrInvalidDatabaseName, w)
      else
        (case Exec querier (''CREATE SCHEMA IF NOT EXISTS '' @ Sanitize [db]) w of
           (err0, w1) \<Rightarrow>
             (case (if err0 = None then createSettingsTable cst querier db w1 else (err0, w1)) of
                (None, w2) \<Rightarrow> (None, w2)
              | (Some err, w2) \<Rightarrow>
                  if errors_Is err ErrAlreadyExist then (None, w2)
                  else
                    (case errors_As_PgError err of
                       None \<Rightarrow> (Some (lazyerrors_Error err), w2)
                     | Some code \<Rightarrow>
                         if code = DuplicateSchema then (Some ErrAlreadyExist, w2)
                         else if code = UniqueViolation \<or> code = DuplicateObject
                         then (Some ErrAlreadyExist, w2)
                         else (Some (lazyerrors_Error err), w2)))))"

subsection \<open>DropDatabase\<close>

definition DropDatabase :: "'b querier \<Rightarrow> string \<Rightarrow> 'b world \<Rightarrow> error option \<times> 'b world" where
  "DropDatabase querier db w =
     (case Exec querier (''DROP SCHEMA '' @ Sanitize [db] @ '' CASCADE'') w of
        (None, w1) \<Rightarrow> (None, w1)
      | (Some err, w1) \<Rightarrow>
          (case assert_PgError err of
             None \<Rightarrow> (Some (lazyerrors_Error err), w1)
           | Some code \<Rightarrow>
               if code = InvalidSchemaName then (Some ErrSchemaNotExist, w1)
               else (Some (lazyerrors_Error err), w1)))"

section \<open>Notions used in the statements\<close>

text \<open>A name the two create functions accept: it matches the expression and does not
  start with the reserved prefix.\<close>

definition validName :: "string \<Rightarrow> bool" where
  "validName db =
     (validateDatabaseNameRe_MatchString db \<and> \<not> strings_HasPrefix db reservedPrefix)"

text \<open>
  The error the backend work of a create call ends with (lines 73 to 76 and 107 to 110
  of the file): the one of the schema statement \<open>sql\<close>, or, when that is nil, the one
  of \<open>createSettingsTable\<close>.
\<close>

definition schemaThenSettings ::
  "'b settings_table \<Rightarrow> 'b querier \<Rightarrow> string \<Rightarrow> string \<Rightarrow> 'b world
     \<Rightarrow> error option \<times> 'b world" where
  "schemaThenSettings cst querier sql db w =
     (case Exec querier sql w of
        (None, w1) \<Rightarrow> createSettingsTable cst querier db w1
      | (Some err, w1) \<Rightarrow> (Some err, w1))"

text \<open>The events a call added to the ones that were there before it.\<close>

definition added :: "'b world \<Rightarrow> 'b world \<Rightarrow> event list" where
  "added w w' = drop (length (issued w)) (issued w')"

text \<open>The schema names the backend reported: the rows whose \<open>Scan\<close> gave a name.\<close>

fun reported :: "(error + string) list \<Rightarrow> string list" where
  "reported [] = []"
| "reported (Inl err # rs) = reported rs"
| "reported (Inr name # rs) = name # reported rs"

definition hidden :: "string \<Rightarrow> bool" where
  "hidden name = (strings_HasPrefix name ''pg_'' \<or> name = ''information_schema'')"

definition listSchemas :: string where
  "listSchemas = ''SELECT schema_name FROM information_schema.schemata ORDER BY schema_name''"

text \<open>
  What \<open>ORDER BY schema_name\<close> asks of the backend: in whatever state it is, the rows
  it answers to the schema query arrive with their names in ascending order (the order
  of Go's string comparison, byte by byte).
\<close>

definition honoursOrderBy :: "'b querier \<Rightarrow> bool" where
  "honoursOrderBy querier =
     (\<forall>b rs b'. qQuery querier listSchemas b = (Inr rs, b') \<longrightarrow> sorted (reported (scans rs)))"

text \<open>The three codes the create functions treat as "already exists".\<close>

definition duplicateCodes :: "string list" where
  "duplicateCodes = [''42P06'', ''23505'', ''42710'']"

text \<open>
  What both create functions make of the error \<open>err\<close> of a failed backend call in
  their \<open>switch\<close>: the sentinel for the three codes, the wrapped error otherwise
  (lemmas \<open>CreateDatabase_valid\<close> and \<open>CreateDatabaseIfNotExists_valid\<close> relate it to
  the functions).
\<close>

definition classify :: "error \<Rightarrow> error" where
  "classify err =
     (case errors_As_PgError err of
        None \<Rightarrow> lazyerrors_Error err
      | Some code \<Rightarrow> if code \<in> set duplicateCodes then ErrAlreadyExist else lazyerrors_Error err)"

subsection \<open>Concrete queriers for the examples\<close>

text \<open>A backend without state that answers every \<open>Exec\<close> with \<open>r\<close>.\<close>

definition execAnswers :: "error option \<Rightarrow> unit querier" where
  "execAnswers r =
     \<lparr>qExec = (\<lambda>sql b. (r, b)), qQuery = (\<lambda>sql b. (Inl (Other ''no rows''), b))\<rparr>"

text \<open>A backend without state that answers every \<open>Query\<close> with \<open>r\<close>.\<close>

definition queryAnswers :: "error + rows \<Rightarrow> unit querier" where
  "queryAnswers r = \<lparr>qExec = (\<lambda>sql b. (None, b)), qQuery = (\<lambda>sql b. (r, b))\<rparr>"

text \<open>A \<open>createSettingsTable\<close> that returns \<open>r\<close> after issuing \<open>sqls\<close>.\<close>

definition settingsAnswers :: "error option \<Rightarrow> string list \<Rightarrow> unit settings_table" where
  "settingsAnswers r sqls querier db b = (r, sqls, b)"

definition start :: "unit world" where
  "start = \<lparr>issued = [], backend = ()\<rparr>"

definition quoted :: "string \<Rightarrow> string" where
  "quoted name = [dquote] @ name @ [dquote]"

text \<open>Rows as PostgreSQL delivers them for the schema query.\<close>

definition someSchemas :: rows where
  "someSchemas = \<lparr>scans = map Inr [''information_schema'', ''pg_catalog'', ''pg_toast'',
                                    ''public'', ''test''],
                  rowsErr = None\<rparr>"

section \<open>Auxiliary facts\<close>

subsection \<open>The two create functions, in terms of the backend work\<close>

lemma CreateDatabase_valid:
  assumes "validName db"
  shows "CreateDatabase cst querier db w =
     (case schemaThenSettings cst querier (''CREATE SCHEMA '' @ Sanitize [db]) db w of
        (None, w2) \<Rightarrow> (None, w2)
      | (Some err, w2) \<Rightarrow> (Some (classify err), w2))"
proof (cases "Exec querier (''CREATE SCHEMA '' @ Sanitize [db]) w")
  case (Pair err0 w1)
  show ?thesis
  proof (cases err0)
    case None
    with Pair assms show ?thesis
      by (simp add: CreateDatabase_def schemaThenSettings_def validName_def classify_def
          duplicateCodes_def DuplicateSchema_def UniqueViolation_def DuplicateObject_def
          split: prod.split option.split)
  next
    case (Some e)
    with Pair assms show ?thesis
      by (simp add: CreateDatabase_def schemaThenSettings_def validName_def classify_def
          duplicateCodes_def DuplicateSchema_def UniqueViolation_def DuplicateObject_def
          split: option.split)
  qed
qed

lemma CreateDatabaseIfNotExists_valid:
  assumes "validName db"
  shows "CreateDatabaseIfNotExists cst querier db w =
     (case schemaThenSettings cst querier (''CREATE SCHEMA IF NOT EXISTS '' @ Sanitize [db]) db w of
        (None, w2) \<Rightarrow> (None, w2)
      | (Some err, w2) \<Rightarrow>
          if errors_Is err ErrAlreadyExist then (None, w2) else (Some (classify err), w2))"
proof (cases "Exec querier (''CREATE SCHEMA IF NOT EXISTS '' @ Sanitize [db]) w")
  case (Pair err0 w1)
  show ?thesis
  proof (cases err0)
    case None
    with Pair assms show ?thesis
      by (simp add: CreateDatabaseIfNotExists_def schemaThenSettings_def validName_def classify_def
          duplicateCodes_def DuplicateSchema_def UniqueViolation_def DuplicateObject_def
          split: prod.split option.split)
  next
    case (Some e)
    with Pair assms show ?thesis
      by (simp add: CreateDatabaseIfNotExists_def schemaThenSettings_def validName_def classify_def
          duplicateCodes_def DuplicateSchema_def UniqueViolation_def DuplicateObject_def
          split: option.split)
  qed
qed

lemma classify_no_pg: "errors_As_PgError err = None \<Longrightarrow> classify err = lazyerrors_Error err"
  by (simp add: classify_def)

lemma wrapped_is_no_sentinel:
  "lazyerrors_Error err \<noteq> ErrAlreadyExist" "lazyerrors_Error err \<noteq> ErrInvalidDatabaseName"
  by (simp_all add: lazyerrors_Error_def)

lemma classify_forms: "classify err = ErrAlreadyExist \<or> classify err = lazyerrors_Error err"
  by (simp add: classify_def split: option.split)

lemma pg_chain_no_sentinel:
  "errors_As_PgError err = Some code \<Longrightarrow>
     \<not> errors_Is err ErrAlreadyExist \<and> \<not> errors_Is err ErrInvalidDatabaseName
     \<and> \<not> errors_Is err ErrSchemaNotExist"
  by (induction err) auto

lemma reportedAs_sentinels:
  "reportedAs ErrInvalidDatabaseName = InvalidNamespace"
  "reportedAs ErrAlreadyExist = NamespaceExists"
  "reportedAs ErrSchemaNotExist = NamespaceNotFound"
  by (simp_all add: reportedAs_def)

lemma reportedAs_wrapped_pg:
  "errors_As_PgError err = Some code \<Longrightarrow> reportedAs (lazyerrors_Error err) = InternalError"
  using pg_chain_no_sentinel [of err code]
  by (simp add: reportedAs_def lazyerrors_Error_def)

subsection \<open>Statements and events\<close>

lemma issued_Exec: "issued (snd (Exec querier sql w)) = issued w @ [Statement sql]"
  by (simp add: Exec_def split: prod.split)

lemma added_append: "issued w' = issued w @ evs \<Longrightarrow> added w w' = evs"
  by (simp add: added_def)

lemma issued_schemaThenSettings:
  "issued (snd (schemaThenSettings cst querier sql db w)) =
     issued w @ Statement sql #
       (if fst (Exec querier sql w) = None
        then CreateSettingsTable db #
               map Statement (fst (snd (cst querier db (backend (snd (Exec querier sql w))))))
        else [])"
proof (cases "Exec querier sql w")
  case (Pair r w1)
  then have w1: "issued w1 = issued w @ [Statement sql]"
    using issued_Exec [of querier sql w] by simp
  show ?thesis
  proof (cases r)
    case None
    with Pair w1 show ?thesis
      by (simp add: schemaThenSettings_def createSettingsTable_def split: prod.split)
  next
    case (Some err)
    with Pair w1 show ?thesis by (simp add: schemaThenSettings_def)
  qed
qed

lemma snd_CreateDatabase:
  "validName db \<Longrightarrow>
     snd (CreateDatabase cst querier db w)
       = snd (schemaThenSettings cst querier (''CREATE SCHEMA '' @ Sanitize [db]) db w)"
  by (simp add: CreateDatabase_valid split: prod.split option.split)

lemma snd_CreateDatabaseIfNotExists:
  "validName db \<Longrightarrow>
     snd (CreateDatabaseIfNotExists cst querier db w)
       = snd (schemaThenSettings cst querier (''CREATE SCHEMA IF NOT EXISTS '' @ Sanitize [db]) db w)"
  by (simp add: CreateDatabaseIfNotExists_valid split: prod.split option.split)

lemma DropDatabase_Exec:
  "DropDatabase querier db w =
     (case Exec querier (''DROP SCHEMA '' @ Sanitize [db] @ '' CASCADE'') w of
        (None, w1) \<Rightarrow> (None, w1)
      | (Some err, w1) \<Rightarrow>
          (if err = PgError ''3F000'' then Some ErrSchemaNotExist else Some (lazyerrors_Error err),
           w1))"
proof (cases "Exec querier (''DROP SCHEMA '' @ Sanitize [db] @ '' CASCADE'') w")
  case (Pair r w1)
  show ?thesis
  proof (cases r)
    case None
    with Pair show ?thesis by (simp add: DropDatabase_def)
  next
    case (Some err)
    with Pair show ?thesis
      by (cases err) (auto simp: DropDatabase_def InvalidSchemaName_def)
  qed
qed

subsection \<open>Quoting a valid name\<close>

lemma ReplaceAll_absent: "old \<notin> set s \<Longrightarrow> strings_ReplaceAll s old new = s"
  by (induction s) auto

lemma restChar_plain: "restChar c \<Longrightarrow> c \<noteq> nul \<and> c \<noteq> dquote"
  by (auto simp: restChar_def nul_def dquote_def)

lemma firstChar_restChar: "firstChar c \<Longrightarrow> restChar c"
  by (auto simp: firstChar_def restChar_def)

lemma match_all_restChar: "validateDatabaseNameRe_MatchString db \<Longrightarrow> list_all restChar db"
  by (cases db) (auto simp: firstChar_restChar)

lemma Sanitize_match:
  assumes "validateDatabaseNameRe_MatchString db"
  shows "Sanitize [db] = quoted db"
proof -
  from assms have "list_all restChar db" by (rule match_all_restChar)
  then have "nul \<notin> set db" and "dquote \<notin> set db"
    using restChar_plain by (auto simp: list_all_iff)
  then show ?thesis
    by (simp add: Sanitize_def quoted_def ReplaceAll_absent)
qed

subsection \<open>The loop of Databases\<close>

lemma scanLoop_Inr:
  "scanLoop rs acc = Inr res \<Longrightarrow>
     res = acc @ filter (\<lambda>n. \<not> hidden n) (reported rs) \<and> rs = map Inr (reported rs)"
  by (induction rs acc rule: scanLoop.induct) (auto simp: hidden_def split: if_splits)

lemma scanLoop_names:
  "scanLoop (map Inr names) acc = Inr (acc @ filter (\<lambda>n. \<not> hidden n) names)"
  by (induction names arbitrary: acc) (auto simp: hidden_def)

lemma reported_names: "reported (map Inr names) = names"
  by (induction names) auto

lemma Databases_returns:
  assumes "Query querier listSchemas w = (Inr rs, w1)"
    and "scans rs = map Inr names" and "rowsErr rs = None"
  shows "Databases querier w = (Inr (filter (\<lambda>n. \<not> hidden n) names), w1)"
  using assms scanLoop_names [of names "[]"]
  by (simp add: Databases_def listSchemas_def)

lemma Databases_Inr:
  assumes "Databases querier w = (Inr res, w')"
  shows "\<exists>rs. Query querier listSchemas w = (Inr rs, w') \<and> rowsErr rs = None
            \<and> scanLoop (scans rs) [] = Inr res"
proof (cases "Query querier listSchemas w")
  case (Pair r w1)
  show ?thesis
  proof (cases r)
    case (Inl err)
    with Pair assms show ?thesis by (simp add: Databases_def listSchemas_def)
  next
    case (Inr rs)
    with Pair assms show ?thesis
      by (auto simp: Databases_def listSchemas_def split: sum.splits option.splits)
  qed
qed

subsection \<open>Facts about the examples\<close>

lemmas run_defs =
  validName_def strings_HasPrefix_def reservedPrefix_def firstChar_def restChar_def
  CreateDatabase_def CreateDatabaseIfNotExists_def DropDatabase_def Databases_def
  Exec_def Query_def createSettingsTable_def schemaThenSettings_def
  execAnswers_def queryAnswers_def settingsAnswers_def start_def
  Sanitize_def dquote_def nul_def quoted_def lazyerrors_Error_def
  DuplicateSchema_def UniqueViolation_def DuplicateObject_def InvalidSchemaName_def
  duplicateCodes_def added_def listSchemas_def hidden_def reportedAs_def

lemma validName_test: "validName ''test''"
  by (simp add: run_defs)

lemma Sanitize_test: "Sanitize [''test''] = quoted ''test''"
  by (simp add: run_defs)

lemma Query_someSchemas:
  "Query (queryAnswers (Inr someSchemas)) listSchemas start
     = (Inr someSchemas, \<lparr>issued = [Statement listSchemas], backend = ()\<rparr>)"
  by (simp add: Query_def queryAnswers_def start_def)

lemma hidden_examples:
  "hidden ''information_schema''" "hidden ''pg_catalog''" "hidden ''pg_toast''"
  "\<not> hidden ''public''" "\<not> hidden ''test''"
  by (simp_all add: hidden_def strings_HasPrefix_def)

lemma Databases_someSchemas:
  "Databases (queryAnswers (Inr someSchemas)) start
     = (Inr [''public'', ''test''], \<lparr>issued = [Statement listSchemas], backend = ()\<rparr>)"
proof -
  have "Databases (queryAnswers (Inr someSchemas)) start
      = (Inr (filter (\<lambda>n. \<not> hidden n)
           [''information_schema'', ''pg_catalog'', ''pg_toast'', ''public'', ''test'']),
         \<lparr>issued = [Statement listSchemas], backend = ()\<rparr>)"
    by (rule Databases_returns [OF Query_someSchemas]) (simp_all add: someSchemas_def)
  then show ?thesis by (simp add: hidden_examples)
qed

lemma sorted_someSchemas: "sorted (reported (scans someSchemas))"
  by (simp add: someSchemas_def)

section \<open>CreateDatabaseIfNotExists when the schema already exists\<close>

text \<open>
  Claim C1 says that \<open>CreateDatabaseIfNotExists\<close> reports success whenever the schema
  already exists, also when the schema statement or the settings table reports a
  duplicate schema (42P06), a unique violation (23505) or a duplicate object (42710).
  The function does something else: for a name it accepts, when the backend work ends
  with a PostgreSQL error that carries one of these three codes, it returns
  \<open>ErrAlreadyExist\<close>, which is an error and not nil.
\<close>

theorem CreateDatabaseIfNotExists_duplicate_code_is_error:
  assumes "validName db"
    and "schemaThenSettings cst querier (''CREATE SCHEMA IF NOT EXISTS '' @ Sanitize [db]) db w
           = (Some err, w')"
    and "errors_As_PgError err = Some code"
    and "code \<in> set duplicateCodes"
  shows "CreateDatabaseIfNotExists cst querier db w = (Some ErrAlreadyExist, w')"
proof -
  have no: "\<not> errors_Is err ErrAlreadyExist"
    using assms(3) pg_chain_no_sentinel by blast
  have "classify err = ErrAlreadyExist"
    using assms(3,4) by (simp add: classify_def)
  with no assms(2) show ?thesis
    by (simp add: CreateDatabaseIfNotExists_valid [OF assms(1)])
qed

text \<open>
  The run with a unique violation on the schema statement.
\<close>

theorem CreateDatabaseIfNotExists_unique_violation_run:
  "validName ''test'' \<and>
   CreateDatabaseIfNotExists (settingsAnswers None []) (execAnswers (Some (PgError ''23505'')))
       ''test'' start
     = (Some ErrAlreadyExist,
        \<lparr>issued = [Statement (''CREATE SCHEMA IF NOT EXISTS '' @ quoted ''test'')], backend = ()\<rparr>)"
proof -
  have run: "schemaThenSettings (settingsAnswers None []) (execAnswers (Some (PgError ''23505'')))
               (''CREATE SCHEMA IF NOT EXISTS '' @ Sanitize [''test'']) ''test'' start
             = (Some (PgError ''23505''),
                \<lparr>issued = [Statement (''CREATE SCHEMA IF NOT EXISTS '' @ quoted ''test'')],
                 backend = ()\<rparr>)"
    by (simp add: schemaThenSettings_def Exec_def execAnswers_def start_def Sanitize_test)
  have code: "errors_As_PgError (PgError ''23505'') = Some ''23505''" by simp
  have dup: "''23505'' \<in> set duplicateCodes" by (simp add: duplicateCodes_def)
  show ?thesis
    using CreateDatabaseIfNotExists_duplicate_code_is_error [OF validName_test run code dup]
      validName_test
    by simp
qed

section \<open>Invalid names\<close>

text \<open>
  Claim C2: for a name that does not match the expression, or that starts with the
  reserved prefix, \<open>CreateDatabase\<close> and \<open>CreateDatabaseIfNotExists\<close> return
  \<open>ErrInvalidDatabaseName\<close> (which is reported as \<open>InvalidNamespace\<close>) and leave
  the world as it was: no statement is issued and the backend state is untouched, so no
  schema is created.
\<close>

theorem invalid_name_rejected_without_statement:
  assumes "\<not> validateDatabaseNameRe_MatchString db \<or> strings_HasPrefix db reservedPrefix"
  shows "CreateDatabase cst querier db w = (Some ErrInvalidDatabaseName, w)
       \<and> CreateDatabaseIfNotExists cst querier db w = (Some ErrInvalidDatabaseName, w)
       \<and> reportedAs ErrInvalidDatabaseName = InvalidNamespace"
proof -
  have "CreateDatabase cst querier db w = (Some ErrInvalidDatabaseName, w)"
    using assms unfolding CreateDatabase_def by (simp only: if_True)
  moreover have "CreateDatabaseIfNotExists cst querier db w = (Some ErrInvalidDatabaseName, w)"
    using assms unfolding CreateDatabaseIfNotExists_def by (simp only: if_True)
  moreover have "reportedAs ErrInvalidDatabaseName = InvalidNamespace"
    by (simp add: reportedAs_def)
  ultimately show ?thesis by simp
qed

text \<open>
  The spec's scenario, the name \<open>_ferretdb_x\<close>.
\<close>

theorem reserved_prefix_rejected_run:
  "strings_HasPrefix ''_ferretdb_x'' reservedPrefix
   \<and> CreateDatabase (settingsAnswers None []) (execAnswers None) ''_ferretdb_x'' start
       = (Some ErrInvalidDatabaseName, start)
   \<and> CreateDatabaseIfNotExists (settingsAnswers None []) (execAnswers None) ''_ferretdb_x'' start
       = (Some ErrInvalidDatabaseName, start)
   \<and> issued start = []"
proof -
  have pre: "strings_HasPrefix ''_ferretdb_x'' reservedPrefix"
    by (simp add: strings_HasPrefix_def reservedPrefix_def)
  then have h: "\<not> validateDatabaseNameRe_MatchString ''_ferretdb_x''
                \<or> strings_HasPrefix ''_ferretdb_x'' reservedPrefix" by simp
  have "issued start = []" by (simp add: start_def)
  with pre show ?thesis
    using invalid_name_rejected_without_statement
      [OF h, of "settingsAnswers None []" "execAnswers None" start]
    by simp
qed

section \<open>DropDatabase and invalid names\<close>

text \<open>
  Claim C3 says that \<open>DropDatabase\<close> rejects a name the expression does not match
  before any statement is issued.  It has no check of the name: for \<open>Bad Name\<close> it
  issues its statement and returns what the backend answers.
\<close>

theorem DropDatabase_unvalidated_run:
  "\<not> validateDatabaseNameRe_MatchString ''Bad Name''
   \<and> DropDatabase (execAnswers None) ''Bad Name'' start
       = (None, \<lparr>issued = [Statement (''DROP SCHEMA '' @ quoted ''Bad Name'' @ '' CASCADE'')],
                 backend = ()\<rparr>)"
  by (simp add: run_defs)

text \<open>
  Claim C3, amended: \<open>DropDatabase\<close> does not validate the name.  For every name,
  matching the expression or not, it issues exactly one statement,
  \<open>DROP SCHEMA\<close> of the sanitized name with \<open>CASCADE\<close>, and it never returns
  \<open>ErrInvalidDatabaseName\<close>.
\<close>

theorem DropDatabase_always_issues_statement:
  "issued (snd (DropDatabase querier db w))
     = issued w @ [Statement (''DROP SCHEMA '' @ Sanitize [db] @ '' CASCADE'')]
   \<and> fst (DropDatabase querier db w) \<noteq> Some ErrInvalidDatabaseName"
proof (cases "Exec querier (''DROP SCHEMA '' @ Sanitize [db] @ '' CASCADE'') w")
  case (Pair r w1)
  then have "issued w1 = issued w @ [Statement (''DROP SCHEMA '' @ Sanitize [db] @ '' CASCADE'')]"
    using issued_Exec [of querier "''DROP SCHEMA '' @ Sanitize [db] @ '' CASCADE''" w] by simp
  with Pair show ?thesis
    by (cases r) (simp_all add: DropDatabase_Exec lazyerrors_Error_def)
qed

text \<open>
  The same name again, with a backend that knows no such schema.
\<close>

theorem DropDatabase_always_issues_statement_run:
  "issued (snd (DropDatabase (execAnswers (Some (PgError ''3F000''))) ''Bad Name'' start))
     = [Statement (''DROP SCHEMA '' @ Sanitize [''Bad Name''] @ '' CASCADE'')]
   \<and> fst (DropDatabase (execAnswers (Some (PgError ''3F000''))) ''Bad Name'' start)
       \<noteq> Some ErrInvalidDatabaseName"
  using DropDatabase_always_issues_statement
    [of "execAnswers (Some (PgError ''3F000''))" "''Bad Name''" start]
  by (simp add: start_def)

section \<open>The errors of CreateDatabase\<close>

text \<open>
  Claim C4: for a name \<open>CreateDatabase\<close> accepts, let \<open>r\<close> be the error the backend
  work ends with.  When \<open>r\<close> is nil the function returns nil.  When \<open>r\<close> holds a
  PostgreSQL error (found by \<open>errors.As\<close>, so also inside a wrapper) with code 42P06,
  23505 or 42710, the function returns \<open>ErrAlreadyExist\<close>, reported as
  \<open>NamespaceExists\<close>.  When it holds a PostgreSQL error with any other code, the
  function returns the error wrapped, which is reported as \<open>InternalError\<close>.
\<close>

theorem CreateDatabase_error_mapping:
  assumes "validName db"
    and "schemaThenSettings cst querier (''CREATE SCHEMA '' @ Sanitize [db]) db w = (r, w')"
  shows "(r = None \<longrightarrow> CreateDatabase cst querier db w = (None, w'))
       \<and> (\<forall>err code. r = Some err \<and> errors_As_PgError err = Some code
              \<and> code \<in> {''42P06'', ''23505'', ''42710''}
            \<longrightarrow> CreateDatabase cst querier db w = (Some ErrAlreadyExist, w')
                \<and> reportedAs ErrAlreadyExist = NamespaceExists)
       \<and> (\<forall>err code. r = Some err \<and> errors_As_PgError err = Some code
              \<and> code \<notin> {''42P06'', ''23505'', ''42710''}
            \<longrightarrow> CreateDatabase cst querier db w = (Some (lazyerrors_Error err), w')
                \<and> reportedAs (lazyerrors_Error err) = InternalError)"
proof (intro conjI allI impI)
  assume "r = None"
  with assms(2) show "CreateDatabase cst querier db w = (None, w')"
    by (simp add: CreateDatabase_valid [OF assms(1)])
next
  fix err code
  assume h: "r = Some err \<and> errors_As_PgError err = Some code
             \<and> code \<in> {''42P06'', ''23505'', ''42710''}"
  then have "classify err = ErrAlreadyExist"
    by (auto simp: classify_def duplicateCodes_def)
  with h assms(2) show "CreateDatabase cst querier db w = (Some ErrAlreadyExist, w')"
    by (simp add: CreateDatabase_valid [OF assms(1)])
  show "reportedAs ErrAlreadyExist = NamespaceExists"
    by (rule reportedAs_sentinels)
next
  fix err code
  assume h: "r = Some err \<and> errors_As_PgError err = Some code
             \<and> code \<notin> {''42P06'', ''23505'', ''42710''}"
  then have "classify err = lazyerrors_Error err"
    by (auto simp: classify_def duplicateCodes_def)
  with h assms(2) show "CreateDatabase cst querier db w = (Some (lazyerrors_Error err), w')"
    by (simp add: CreateDatabase_valid [OF assms(1)])
  from h show "reportedAs (lazyerrors_Error err) = InternalError"
    using reportedAs_wrapped_pg by blast
qed

text \<open>
  Three runs: a duplicate schema, a permission error from the settings table, and
  success.
\<close>

theorem CreateDatabase_error_mapping_run:
  "validName ''test''
   \<and> CreateDatabase (settingsAnswers None []) (execAnswers (Some (PgError ''42P06''))) ''test'' start
       = (Some ErrAlreadyExist,
          \<lparr>issued = [Statement (''CREATE SCHEMA '' @ quoted ''test'')], backend = ()\<rparr>)
   \<and> CreateDatabase (settingsAnswers (Some (Wrapped (PgError ''42501''))) []) (execAnswers None)
         ''test'' start
       = (Some (Wrapped (Wrapped (PgError ''42501''))),
          \<lparr>issued = [Statement (''CREATE SCHEMA '' @ quoted ''test''), CreateSettingsTable ''test''],
           backend = ()\<rparr>)
   \<and> CreateDatabase (settingsAnswers None []) (execAnswers None) ''test'' start
       = (None,
          \<lparr>issued = [Statement (''CREATE SCHEMA '' @ quoted ''test''), CreateSettingsTable ''test''],
           backend = ()\<rparr>)"
proof -
  have run1: "schemaThenSettings (settingsAnswers None []) (execAnswers (Some (PgError ''42P06'')))
               (''CREATE SCHEMA '' @ Sanitize [''test'']) ''test'' start
             = (Some (PgError ''42P06''),
                \<lparr>issued = [Statement (''CREATE SCHEMA '' @ quoted ''test'')], backend = ()\<rparr>)"
    by (simp add: schemaThenSettings_def Exec_def execAnswers_def start_def Sanitize_test)
  have run2: "schemaThenSettings (settingsAnswers (Some (Wrapped (PgError ''42501''))) [])
               (execAnswers None) (''CREATE SCHEMA '' @ Sanitize [''test'']) ''test'' start
             = (Some (Wrapped (PgError ''42501'')),
                \<lparr>issued = [Statement (''CREATE SCHEMA '' @ quoted ''test''),
                           CreateSettingsTable ''test''], backend = ()\<rparr>)"
    by (simp add: schemaThenSettings_def Exec_def execAnswers_def start_def Sanitize_test
        createSettingsTable_def settingsAnswers_def)
  have run3: "schemaThenSettings (settingsAnswers None []) (execAnswers None)
               (''CREATE SCHEMA '' @ Sanitize [''test'']) ''test'' start
             = (None,
                \<lparr>issued = [Statement (''CREATE SCHEMA '' @ quoted ''test''),
                           CreateSettingsTable ''test''], backend = ()\<rparr>)"
    by (simp add: schemaThenSettings_def Exec_def execAnswers_def start_def Sanitize_test
        createSettingsTable_def settingsAnswers_def)
  show ?thesis
    using CreateDatabase_error_mapping [OF validName_test run1]
      CreateDatabase_error_mapping [OF validName_test run2]
      CreateDatabase_error_mapping [OF validName_test run3]
      validName_test
    by (simp add: lazyerrors_Error_def)
qed

section \<open>The errors of DropDatabase\<close>

text \<open>
  Claim C5: for every name, let \<open>r\<close> be what \<open>Exec\<close> returns for the
  \<open>DROP SCHEMA\<close> statement.  \<open>DropDatabase\<close> returns nil when \<open>r\<close> is nil, it
  returns \<open>ErrSchemaNotExist\<close> (reported as \<open>NamespaceNotFound\<close>) exactly when
  \<open>r\<close> is a PostgreSQL error with code 3F000, and it returns every other error
  wrapped.
\<close>

theorem DropDatabase_error_mapping:
  assumes "Exec querier (''DROP SCHEMA '' @ Sanitize [db] @ '' CASCADE'') w = (r, w')"
  shows "(r = None \<longrightarrow> DropDatabase querier db w = (None, w'))
       \<and> (r = Some (PgError ''3F000'')
            \<longrightarrow> DropDatabase querier db w = (Some ErrSchemaNotExist, w')
                \<and> reportedAs ErrSchemaNotExist = NamespaceNotFound)
       \<and> (\<forall>err. r = Some err \<and> err \<noteq> PgError ''3F000''
            \<longrightarrow> DropDatabase querier db w = (Some (lazyerrors_Error err), w'))
       \<and> (fst (DropDatabase querier db w) = Some ErrSchemaNotExist
            \<longleftrightarrow> r = Some (PgError ''3F000''))"
proof (cases r)
  case None
  with assms show ?thesis by (simp add: DropDatabase_Exec)
next
  case (Some err)
  with assms show ?thesis
    by (simp add: DropDatabase_Exec reportedAs_sentinels lazyerrors_Error_def)
qed

text \<open>
  Three runs: a missing schema, a cancelled context, and success.
\<close>

theorem DropDatabase_error_mapping_run:
  "DropDatabase (execAnswers (Some (PgError ''3F000''))) ''test'' start
     = (Some ErrSchemaNotExist,
        \<lparr>issued = [Statement (''DROP SCHEMA '' @ quoted ''test'' @ '' CASCADE'')], backend = ()\<rparr>)
   \<and> DropDatabase (execAnswers (Some (Other ''context canceled''))) ''test'' start
     = (Some (Wrapped (Other ''context canceled'')),
        \<lparr>issued = [Statement (''DROP SCHEMA '' @ quoted ''test'' @ '' CASCADE'')], backend = ()\<rparr>)
   \<and> DropDatabase (execAnswers None) ''test'' start
     = (None,
        \<lparr>issued = [Statement (''DROP SCHEMA '' @ quoted ''test'' @ '' CASCADE'')], backend = ()\<rparr>)"
proof -
  have run: "Exec (execAnswers r) (''DROP SCHEMA '' @ Sanitize [''test''] @ '' CASCADE'') start
             = (r, \<lparr>issued = [Statement (''DROP SCHEMA '' @ quoted ''test'' @ '' CASCADE'')],
                    backend = ()\<rparr>)" for r
    by (simp add: Exec_def execAnswers_def start_def Sanitize_test)
  show ?thesis
    using DropDatabase_error_mapping [OF run [of "Some (PgError ''3F000'')"]]
      DropDatabase_error_mapping [OF run [of "Some (Other ''context canceled'')"]]
      DropDatabase_error_mapping [OF run [of None]]
    by (simp add: lazyerrors_Error_def)
qed

section \<open>The names Databases returns\<close>

text \<open>
  Claim C6: when \<open>Databases\<close> returns a list, every row of the backend was scanned,
  and the list holds no name that starts with \<open>pg_\<close>, does not hold
  \<open>information_schema\<close>, and holds every other name the backend reported; it is the
  reported list without the hidden names.
\<close>

theorem Databases_hides_system_schemas:
  assumes "Databases querier w = (Inr res, w')"
    and "Query querier listSchemas w = (Inr rs, w1)"
  shows "scans rs = map Inr (reported (scans rs))
       \<and> (\<forall>name \<in> set res. \<not> strings_HasPrefix name ''pg_'' \<and> name \<noteq> ''information_schema'')
       \<and> (\<forall>name \<in> set (reported (scans rs)).
             \<not> strings_HasPrefix name ''pg_'' \<and> name \<noteq> ''information_schema'' \<longrightarrow> name \<in> set res)
       \<and> res = filter (\<lambda>name. \<not> hidden name) (reported (scans rs))"
proof -
  from Databases_Inr [OF assms(1)] assms(2)
  have "scanLoop (scans rs) [] = Inr res" by auto
  from scanLoop_Inr [OF this]
  have res: "res = filter (\<lambda>n. \<not> hidden n) (reported (scans rs))"
    and all: "scans rs = map Inr (reported (scans rs))" by simp_all
  from res have "\<forall>name \<in> set res. \<not> strings_HasPrefix name ''pg_'' \<and> name \<noteq> ''information_schema''"
    by (auto simp: hidden_def)
  moreover from res have "\<forall>name \<in> set (reported (scans rs)).
      \<not> strings_HasPrefix name ''pg_'' \<and> name \<noteq> ''information_schema'' \<longrightarrow> name \<in> set res"
    by (auto simp: hidden_def)
  ultimately show ?thesis using res all by blast
qed

text \<open>
  A run over five schemas, three of them hidden.
\<close>

theorem Databases_hides_system_schemas_run:
  "Databases (queryAnswers (Inr someSchemas)) start
     = (Inr [''public'', ''test''], \<lparr>issued = [Statement listSchemas], backend = ()\<rparr>)
   \<and> [''public'', ''test'']
       = filter (\<lambda>name. \<not> hidden name) (reported (scans someSchemas))"
  using Databases_hides_system_schemas [OF Databases_someSchemas Query_someSchemas]
    Databases_someSchemas
  by simp

section \<open>The order of the names Databases returns\<close>

text \<open>
  Claim C7: whenever \<open>Databases\<close> returns a list, the list is sorted in ascending
  order.  The function asks the backend for the order, with \<open>ORDER BY schema_name\<close>,
  and its loop only leaves rows out; so for every querier that honours the
  \<open>ORDER BY\<close>, as PostgreSQL does, every list it returns is sorted.
\<close>

theorem Databases_sorted:
  assumes "honoursOrderBy querier"
    and "Databases querier w = (Inr res, w')"
  shows "sorted res"
proof -
  from Databases_Inr [OF assms(2)] obtain rs
    where q: "Query querier listSchemas w = (Inr rs, w')"
      and loop: "scanLoop (scans rs) [] = Inr res" by blast
  from q have "qQuery querier listSchemas (backend w) = (Inr rs, backend w')"
    by (auto simp: Query_def split: prod.splits)
  with assms(1) have "sorted (reported (scans rs))"
    unfolding honoursOrderBy_def by blast
  moreover from scanLoop_Inr [OF loop]
  have "res = filter (\<lambda>n. \<not> hidden n) (reported (scans rs))" by simp
  ultimately show ?thesis by (simp add: sorted_wrt_filter)
qed

text \<open>
  The run over the five schemas, which arrive in the order of their bytes.
\<close>

theorem Databases_sorted_run:
  "honoursOrderBy (queryAnswers (Inr someSchemas))
   \<and> Databases (queryAnswers (Inr someSchemas)) start
       = (Inr [''public'', ''test''], \<lparr>issued = [Statement listSchemas], backend = ()\<rparr>)
   \<and> sorted [''public'', ''test'']"
proof -
  have h: "honoursOrderBy (queryAnswers (Inr someSchemas))"
    using sorted_someSchemas by (simp add: honoursOrderBy_def queryAnswers_def)
  show ?thesis
    using Databases_sorted [OF h Databases_someSchemas] h Databases_someSchemas
    by simp
qed

section \<open>The name inside the statements\<close>

text \<open>
  Claim C8: for a name that validation accepts, \<open>Sanitize\<close> gives the name itself
  between two double quotes, one quoted identifier.  The schema statement of
  \<open>CreateDatabase\<close> and of \<open>CreateDatabaseIfNotExists\<close> is the first event the
  call adds, and it ends with this identifier; the one statement of \<open>DropDatabase\<close>
  holds it before \<open>CASCADE\<close>.
\<close>

theorem statements_embed_quoted_name:
  assumes "validName db"
  shows "Sanitize [db] = [dquote] @ db @ [dquote]
       \<and> (\<exists>rest. issued (snd (CreateDatabase cst querier db w))
                   = issued w @ Statement (''CREATE SCHEMA '' @ [dquote] @ db @ [dquote]) # rest)
       \<and> (\<exists>rest. issued (snd (CreateDatabaseIfNotExists cst querier db w))
                   = issued w
                     @ Statement (''CREATE SCHEMA IF NOT EXISTS '' @ [dquote] @ db @ [dquote]) # rest)
       \<and> issued (snd (DropDatabase querier db w))
           = issued w @ [Statement (''DROP SCHEMA '' @ [dquote] @ db @ [dquote] @ '' CASCADE'')]"
proof -
  from assms have q: "Sanitize [db] = [dquote] @ db @ [dquote]"
    using Sanitize_match [of db] by (simp add: validName_def quoted_def)
  have "\<exists>rest. issued (snd (CreateDatabase cst querier db w))
                   = issued w @ Statement (''CREATE SCHEMA '' @ Sanitize [db]) # rest"
    by (simp add: snd_CreateDatabase [OF assms] issued_schemaThenSettings)
  moreover have "\<exists>rest. issued (snd (CreateDatabaseIfNotExists cst querier db w))
                   = issued w @ Statement (''CREATE SCHEMA IF NOT EXISTS '' @ Sanitize [db]) # rest"
    by (simp add: snd_CreateDatabaseIfNotExists [OF assms] issued_schemaThenSettings)
  moreover have "issued (snd (DropDatabase querier db w))
           = issued w @ [Statement (''DROP SCHEMA '' @ Sanitize [db] @ '' CASCADE'')]"
    by (cases "Exec querier (''DROP SCHEMA '' @ Sanitize [db] @ '' CASCADE'') w")
       (use issued_Exec [of querier "''DROP SCHEMA '' @ Sanitize [db] @ '' CASCADE''" w]
         in \<open>auto simp: DropDatabase_Exec split: option.split\<close>)
  ultimately show ?thesis using q by simp
qed

text \<open>
  The statements for the name \<open>test\<close>.
\<close>

theorem statements_embed_quoted_name_run:
  "validName ''test''
   \<and> issued (snd (CreateDatabase (settingsAnswers None []) (execAnswers None) ''test'' start))
       = [Statement (''CREATE SCHEMA '' @ [dquote] @ ''test'' @ [dquote]),
          CreateSettingsTable ''test'']
   \<and> issued (snd (DropDatabase (execAnswers None) ''test'' start))
       = [Statement (''DROP SCHEMA '' @ [dquote] @ ''test'' @ [dquote] @ '' CASCADE'')]"
proof -
  have "issued (snd (CreateDatabase (settingsAnswers None []) (execAnswers None) ''test'' start))
       = [Statement (''CREATE SCHEMA '' @ Sanitize [''test'']), CreateSettingsTable ''test'']"
    by (simp add: snd_CreateDatabase [OF validName_test] issued_schemaThenSettings
        Exec_def execAnswers_def settingsAnswers_def start_def)
  then show ?thesis
    using statements_embed_quoted_name
      [OF validName_test, of "settingsAnswers None []" "execAnswers None" start]
      validName_test
    by (simp add: start_def)
qed

section \<open>The settings table after the schema\<close>

text \<open>
  Claim C9: for a name the create functions accept, \<open>createSettingsTable\<close> is
  called if and only if \<open>Exec\<close> returned nil for the schema statement; when it
  returned an error, the schema statement is the only event the call adds.
\<close>

theorem settings_table_iff_schema_created:
  assumes "validName db"
  shows "(CreateSettingsTable db \<in> set (added w (snd (CreateDatabase cst querier db w)))
            \<longleftrightarrow> fst (Exec querier (''CREATE SCHEMA '' @ Sanitize [db]) w) = None)
       \<and> (fst (Exec querier (''CREATE SCHEMA '' @ Sanitize [db]) w) \<noteq> None
            \<longrightarrow> added w (snd (CreateDatabase cst querier db w))
                  = [Statement (''CREATE SCHEMA '' @ Sanitize [db])])
       \<and> (CreateSettingsTable db \<in> set (added w (snd (CreateDatabaseIfNotExists cst querier db w)))
            \<longleftrightarrow> fst (Exec querier (''CREATE SCHEMA IF NOT EXISTS '' @ Sanitize [db]) w) = None)
       \<and> (fst (Exec querier (''CREATE SCHEMA IF NOT EXISTS '' @ Sanitize [db]) w) \<noteq> None
            \<longrightarrow> added w (snd (CreateDatabaseIfNotExists cst querier db w))
                  = [Statement (''CREATE SCHEMA IF NOT EXISTS '' @ Sanitize [db])])"
proof -
  have ev: "added w (snd (schemaThenSettings cst querier sql db w)) =
      Statement sql #
       (if fst (Exec querier sql w) = None
        then CreateSettingsTable db #
               map Statement (fst (snd (cst querier db (backend (snd (Exec querier sql w))))))
        else [])" for sql
    by (rule added_append) (rule issued_schemaThenSettings)
  have one: "(CreateSettingsTable db \<in> set (added w (snd (schemaThenSettings cst querier sql db w)))
            \<longleftrightarrow> fst (Exec querier sql w) = None)
       \<and> (fst (Exec querier sql w) \<noteq> None
            \<longrightarrow> added w (snd (schemaThenSettings cst querier sql db w)) = [Statement sql])" for sql
    unfolding ev by auto
  show ?thesis
    unfolding snd_CreateDatabase [OF assms] snd_CreateDatabaseIfNotExists [OF assms]
    using one [of "''CREATE SCHEMA '' @ Sanitize [db]"]
      one [of "''CREATE SCHEMA IF NOT EXISTS '' @ Sanitize [db]"]
    by blast
qed

text \<open>
  A run where the schema statement fails, and one where it succeeds.
\<close>

theorem settings_table_iff_schema_created_run:
  "validName ''test''
   \<and> fst (Exec (execAnswers (Some (Other ''connection reset''))) (''CREATE SCHEMA '' @ Sanitize [''test''])
            start) \<noteq> None
   \<and> added start (snd (CreateDatabase (settingsAnswers None [''CREATE TABLE settings''])
                         (execAnswers (Some (Other ''connection reset''))) ''test'' start))
       = [Statement (''CREATE SCHEMA '' @ Sanitize [''test''])]
   \<and> fst (Exec (execAnswers None) (''CREATE SCHEMA IF NOT EXISTS '' @ Sanitize [''test'']) start) = None
   \<and> CreateSettingsTable ''test''
       \<in> set (added start (snd (CreateDatabaseIfNotExists (settingsAnswers None [''CREATE TABLE settings''])
                                  (execAnswers None) ''test'' start)))"
proof -
  have a: "fst (Exec (execAnswers (Some (Other ''connection reset'')))
              (''CREATE SCHEMA '' @ Sanitize [''test'']) start) \<noteq> None"
    by (simp add: Exec_def execAnswers_def)
  have b: "fst (Exec (execAnswers None) (''CREATE SCHEMA IF NOT EXISTS '' @ Sanitize [''test''])
              start) = None"
    by (simp add: Exec_def execAnswers_def)
  show ?thesis
    using settings_table_iff_schema_created [OF validName_test,
        of start "settingsAnswers None [''CREATE TABLE settings'']"
           "execAnswers (Some (Other ''connection reset''))"]
      settings_table_iff_schema_created [OF validName_test,
        of start "settingsAnswers None [''CREATE TABLE settings'']" "execAnswers None"]
      a b validName_test
    by simp
qed

section \<open>Errors that are not PostgreSQL errors\<close>

text \<open>
  Claim C10 says that both create functions return every error that is not a
  PostgreSQL error wrapped.  \<open>CreateDatabaseIfNotExists\<close> does not do so for
  \<open>ErrAlreadyExist\<close>, which is not a PostgreSQL error: when
  \<open>createSettingsTable\<close> returns it, the function returns nil.
\<close>

theorem CreateDatabaseIfNotExists_swallows_sentinel_run:
  "errors_As_PgError ErrAlreadyExist = None
   \<and> validName ''test''
   \<and> schemaThenSettings (settingsAnswers (Some ErrAlreadyExist) []) (execAnswers None)
        (''CREATE SCHEMA IF NOT EXISTS '' @ Sanitize [''test'']) ''test'' start
       = (Some ErrAlreadyExist,
          \<lparr>issued = [Statement (''CREATE SCHEMA IF NOT EXISTS '' @ quoted ''test''),
                     CreateSettingsTable ''test''], backend = ()\<rparr>)
   \<and> CreateDatabaseIfNotExists (settingsAnswers (Some ErrAlreadyExist) []) (execAnswers None)
        ''test'' start
       = (None,
          \<lparr>issued = [Statement (''CREATE SCHEMA IF NOT EXISTS '' @ quoted ''test''),
                     CreateSettingsTable ''test''], backend = ()\<rparr>)"
proof -
  have run: "schemaThenSettings (settingsAnswers (Some ErrAlreadyExist) []) (execAnswers None)
        (''CREATE SCHEMA IF NOT EXISTS '' @ Sanitize [''test'']) ''test'' start
       = (Some ErrAlreadyExist,
          \<lparr>issued = [Statement (''CREATE SCHEMA IF NOT EXISTS '' @ quoted ''test''),
                     CreateSettingsTable ''test''], backend = ()\<rparr>)"
    by (simp add: schemaThenSettings_def Exec_def execAnswers_def start_def Sanitize_test
        createSettingsTable_def settingsAnswers_def)
  then show ?thesis
    by (simp add: CreateDatabaseIfNotExists_valid [OF validName_test] validName_test)
qed

text \<open>
  Claim C10, amended: when the backend work of a call with an accepted name ends with
  an error that holds no PostgreSQL error, \<open>CreateDatabase\<close> returns it wrapped, and
  \<open>CreateDatabaseIfNotExists\<close> returns it wrapped unless it is or wraps
  \<open>ErrAlreadyExist\<close>, in which case it returns nil; neither turns it into
  \<open>ErrAlreadyExist\<close>.  Every call of either function returns nil,
  \<open>ErrInvalidDatabaseName\<close>, \<open>ErrAlreadyExist\<close>, or the error of the backend work
  wrapped.
\<close>

theorem create_results:
  "(\<forall>err w1. validName db
       \<and> schemaThenSettings cst querier (''CREATE SCHEMA '' @ Sanitize [db]) db w = (Some err, w1)
       \<and> errors_As_PgError err = None
      \<longrightarrow> CreateDatabase cst querier db w = (Some (lazyerrors_Error err), w1))
 \<and> (\<forall>err w1. validName db
       \<and> schemaThenSettings cst querier (''CREATE SCHEMA IF NOT EXISTS '' @ Sanitize [db]) db w
           = (Some err, w1)
       \<and> errors_As_PgError err = None
      \<longrightarrow> CreateDatabaseIfNotExists cst querier db w
           = (if errors_Is err ErrAlreadyExist then None else Some (lazyerrors_Error err), w1))
 \<and> (fst (CreateDatabase cst querier db w)
        \<in> {None, Some ErrInvalidDatabaseName, Some ErrAlreadyExist}
     \<or> (\<exists>err w1. schemaThenSettings cst querier (''CREATE SCHEMA '' @ Sanitize [db]) db w
                     = (Some err, w1)
                 \<and> fst (CreateDatabase cst querier db w) = Some (lazyerrors_Error err)))
 \<and> (fst (CreateDatabaseIfNotExists cst querier db w)
        \<in> {None, Some ErrInvalidDatabaseName, Some ErrAlreadyExist}
     \<or> (\<exists>err w1. schemaThenSettings cst querier (''CREATE SCHEMA IF NOT EXISTS '' @ Sanitize [db]) db w
                     = (Some err, w1)
                 \<and> fst (CreateDatabaseIfNotExists cst querier db w) = Some (lazyerrors_Error err)))"
proof (intro conjI allI impI)
  fix err w1
  assume "validName db
       \<and> schemaThenSettings cst querier (''CREATE SCHEMA '' @ Sanitize [db]) db w = (Some err, w1)
       \<and> errors_As_PgError err = None"
  then show "CreateDatabase cst querier db w = (Some (lazyerrors_Error err), w1)"
    by (simp add: CreateDatabase_valid classify_no_pg)
next
  fix err w1
  assume "validName db
       \<and> schemaThenSettings cst querier (''CREATE SCHEMA IF NOT EXISTS '' @ Sanitize [db]) db w
           = (Some err, w1)
       \<and> errors_As_PgError err = None"
  then show "CreateDatabaseIfNotExists cst querier db w
           = (if errors_Is err ErrAlreadyExist then None else Some (lazyerrors_Error err), w1)"
    by (simp add: CreateDatabaseIfNotExists_valid classify_no_pg)
next
  show "fst (CreateDatabase cst querier db w)
        \<in> {None, Some ErrInvalidDatabaseName, Some ErrAlreadyExist}
     \<or> (\<exists>err w1. schemaThenSettings cst querier (''CREATE SCHEMA '' @ Sanitize [db]) db w
                     = (Some err, w1)
                 \<and> fst (CreateDatabase cst querier db w) = Some (lazyerrors_Error err))"
  proof (cases "validName db")
    case False
    then have "CreateDatabase cst querier db w = (Some ErrInvalidDatabaseName, w)"
      unfolding CreateDatabase_def validName_def by simp
    then show ?thesis by simp
  next
    case True
    show ?thesis
    proof (cases "schemaThenSettings cst querier (''CREATE SCHEMA '' @ Sanitize [db]) db w")
      case (Pair r w1)
      show ?thesis
      proof (cases r)
        case None
        with Pair show ?thesis by (simp add: CreateDatabase_valid [OF True])
      next
        case (Some err)
        with Pair classify_forms [of err] show ?thesis
          by (auto simp: CreateDatabase_valid [OF True])
      qed
    qed
  qed
next
  show "fst (CreateDatabaseIfNotExists cst querier db w)
        \<in> {None, Some ErrInvalidDatabaseName, Some ErrAlreadyExist}
     \<or> (\<exists>err w1. schemaThenSettings cst querier (''CREATE SCHEMA IF NOT EXISTS '' @ Sanitize [db]) db w
                     = (Some err, w1)
                 \<and> fst (CreateDatabaseIfNotExists cst querier db w) = Some (lazyerrors_Error err))"
  proof (cases "validName db")
    case False
    then have "CreateDatabaseIfNotExists cst querier db w = (Some ErrInvalidDatabaseName, w)"
      unfolding CreateDatabaseIfNotExists_def validName_def by simp
    then show ?thesis by simp
  next
    case True
    show ?thesis
    proof (cases "schemaThenSettings cst querier (''CREATE SCHEMA IF NOT EXISTS '' @ Sanitize [db]) db w")
      case (Pair r w1)
      show ?thesis
      proof (cases r)
        case None
        with Pair show ?thesis by (simp add: CreateDatabaseIfNotExists_valid [OF True])
      next
        case (Some err)
        with Pair classify_forms [of err] show ?thesis
          by (auto simp: CreateDatabaseIfNotExists_valid [OF True])
      qed
    qed
  qed
qed

text \<open>
  A cancelled context on the schema statement, for both functions.
\<close>

theorem create_results_run:
  "validName ''test''
   \<and> errors_As_PgError (Other ''context canceled'') = None
   \<and> CreateDatabase (settingsAnswers None []) (execAnswers (Some (Other ''context canceled'')))
        ''test'' start
       = (Some (Wrapped (Other ''context canceled'')),
          \<lparr>issued = [Statement (''CREATE SCHEMA '' @ quoted ''test'')], backend = ()\<rparr>)
   \<and> CreateDatabaseIfNotExists (settingsAnswers None [])
        (execAnswers (Some (Other ''context canceled''))) ''test'' start
       = (Some (Wrapped (Other ''context canceled'')),
          \<lparr>issued = [Statement (''CREATE SCHEMA IF NOT EXISTS '' @ quoted ''test'')], backend = ()\<rparr>)"
proof -
  have run: "schemaThenSettings (settingsAnswers None []) (execAnswers (Some (Other ''context canceled'')))
               (sql @ Sanitize [''test'']) ''test'' start
             = (Some (Other ''context canceled''),
                \<lparr>issued = [Statement (sql @ quoted ''test'')], backend = ()\<rparr>)" for sql
    by (simp add: schemaThenSettings_def Exec_def execAnswers_def start_def Sanitize_test)
  have leaf: "errors_As_PgError (Other ''context canceled'') = None" by simp
  show ?thesis
    using create_results [of "''test''" "settingsAnswers None []"
        "execAnswers (Some (Other ''context canceled''))" start]
      run [of "''CREATE SCHEMA ''"] run [of "''CREATE SCHEMA IF NOT EXISTS ''"]
      validName_test leaf
    by (simp add: lazyerrors_Error_def)
qed

end
